theory Spec2Isabelle
  imports Complex_Main "HOL-Library.Sublist"
begin

section \<open>Strings\<close>

text \<open>
  A JavaScript string is modelled as the list of bytes of its UTF-8 encoding (\<open>string\<close>),
  so that Hebrew text, smart quotes and the non-ASCII white space of ECMAScript are all
  values of the model. UTF-8 is self-synchronising: on well-formed text a byte sequence
  that encodes a code point occurs exactly where that code point occurs, so searching,
  trimming and replacing by encoded sequences agrees with the same operation on code
  points. Lone surrogates (ill-formed UTF-16) have no counterpart here.
\<close>

text \<open>
  The code points that \<open>String.prototype.trim\<close> and the regular-expression class
  \<open>\s\<close> treat as white space (WhiteSpace and LineTerminator of ECMAScript):
  U+0009..U+000D, U+0020, U+00A0, U+1680, U+2000..U+200A, U+2028, U+2029, U+202F,
  U+205F, U+3000, U+FEFF, each as its UTF-8 encoding.
\<close>

definition whitespace :: "string list" where
  "whitespace =
    [[CHR 0x09], [CHR 0x0A], [CHR 0x0B], [CHR 0x0C], [CHR 0x0D], [CHR 0x20],
     [CHR 0xC2, CHR 0xA0],
     [CHR 0xE1, CHR 0x9A, CHR 0x80],
     [CHR 0xE2, CHR 0x80, CHR 0x80], [CHR 0xE2, CHR 0x80, CHR 0x81],
     [CHR 0xE2, CHR 0x80, CHR 0x82], [CHR 0xE2, CHR 0x80, CHR 0x83],
     [CHR 0xE2, CHR 0x80, CHR 0x84], [CHR 0xE2, CHR 0x80, CHR 0x85],
     [CHR 0xE2, CHR 0x80, CHR 0x86], [CHR 0xE2, CHR 0x80, CHR 0x87],
     [CHR 0xE2, CHR 0x80, CHR 0x88], [CHR 0xE2, CHR 0x80, CHR 0x89],
     [CHR 0xE2, CHR 0x80, CHR 0x8A],
     [CHR 0xE2, CHR 0x80, CHR 0xA8], [CHR 0xE2, CHR 0x80, CHR 0xA9],
     [CHR 0xE2, CHR 0x80, CHR 0xAF],
     [CHR 0xE2, CHR 0x81, CHR 0x9F],
     [CHR 0xE3, CHR 0x80, CHR 0x80],
     [CHR 0xEF, CHR 0xBB, CHR 0xBF]]"

text \<open>
  \<open>strip_start seqs s\<close> removes from the front of \<open>s\<close> every leading occurrence of
  one of the sequences \<open>seqs\<close>, as a greedy character class anchored at the start does.
\<close>

function strip_start :: "string list \<Rightarrow> string \<Rightarrow> string" where
  "strip_start seqs s =
     (case List.find (\<lambda>w. w \<noteq> [] \<and> prefix w s) seqs of
        None \<Rightarrow> s
      | Some w \<Rightarrow> strip_start seqs (drop (length w) s))"
  by pat_completeness auto
termination
proof (relation "measure (\<lambda>(seqs, s). length s)")
  show "wf (measure (\<lambda>(seqs, s). length s))" by simp
next
  fix seqs :: "string list" and s w :: string
  assume "List.find (\<lambda>w. w \<noteq> [] \<and> prefix w s) seqs = Some w"
  then have "w \<noteq> []" and "prefix w s"
    by (auto simp: find_Some_iff)
  then have "s \<noteq> []" by auto
  with \<open>w \<noteq> []\<close> show "((seqs, drop (length w) s), (seqs, s)) \<in> measure (\<lambda>(seqs, s). length s)"
    by simp
qed

declare strip_start.simps [simp del]

definition strip_end :: "string list \<Rightarrow> string \<Rightarrow> string" where
  "strip_end seqs s = rev (strip_start (map rev seqs) (rev s))"

definition trimStart :: "string \<Rightarrow> string" where
  "trimStart s = strip_start whitespace s"

definition trimEnd :: "string \<Rightarrow> string" where
  "trimEnd s = strip_end whitespace s"

text \<open>\<open>String.prototype.trim\<close>.\<close>

definition trim :: "string \<Rightarrow> string" where
  "trim s = trimEnd (trimStart s)"

text \<open>
  \<open>String.prototype.toLowerCase\<close> on the ASCII letters. The case mapping of the other
  cased letters of Unicode is a table of the JavaScript runtime; bytes outside
  \<open>A\<close>..\<open>Z\<close> are left as they are, which is what the runtime does for every
  caseless script. No proof below uses more of \<open>toLowerCase\<close> than that it is a
  function.
\<close>

definition toLowerChar :: "char \<Rightarrow> char" where
  "toLowerChar c =
     (case map_of (zip ''ABCDEFGHIJKLMNOPQRSTUVWXYZ'' ''abcdefghijklmnopqrstuvwxyz'') c of
        Some l \<Rightarrow> l
      | None \<Rightarrow> c)"

definition toLowerCase :: "string \<Rightarrow> string" where
  "toLowerCase s = map toLowerChar s"

text \<open>
  Truthiness of a value that is a string or \<open>undefined\<close> (\<open>None\<close>): only a non-empty
  string is truthy.
\<close>

definition truthy :: "string option \<Rightarrow> bool" where
  "truthy v = (case v of None \<Rightarrow> False | Some s \<Rightarrow> s \<noteq> [])"

text \<open>\<open>a || b\<close> on such values.\<close>

definition or_else :: "string option \<Rightarrow> string option \<Rightarrow> string option" where
  "or_else a b = (if truthy a then a else b)"

text \<open>\<open>a || ''\<close> and friends, where the right operand is a string.\<close>

definition or_string :: "string option \<Rightarrow> string \<Rightarrow> string" where
  "or_string a b = (case a of None \<Rightarrow> b | Some s \<Rightarrow> if s = [] then b else s)"

text \<open>\<open>a || []\<close> on a value that is an array or \<open>undefined\<close>; every array is truthy.\<close>

definition or_array :: "'a list option \<Rightarrow> 'a list" where
  "or_array a = (case a of None \<Rightarrow> [] | Some xs \<Rightarrow> xs)"

section \<open>Sets of strings in insertion order\<close>

text \<open>
  \<open>Array.from(new Set(xs))\<close>: the constructor adds the elements of \<open>xs\<close> one by one, an
  element equal to one already in the set is not added again, and the set lists its
  elements in the order they were first added.
\<close>

definition set_add :: "'a list \<Rightarrow> 'a \<Rightarrow> 'a list" where
  "set_add acc x = (if x \<in> set acc then acc else acc @ [x])"

definition array_from_set :: "'a list \<Rightarrow> 'a list" where
  "array_from_set xs = foldl set_add [] xs"

text \<open>\<open>Array.prototype.findIndex\<close>, with \<open>None\<close> for \<open>-1\<close>.\<close>

fun findIndex :: "('a \<Rightarrow> bool) \<Rightarrow> 'a list \<Rightarrow> nat option" where
  "findIndex P [] = None"
| "findIndex P (x # xs) = (if P x then Some 0 else map_option Suc (findIndex P xs))"

section \<open>The document (\<open>useAppStore.ts\<close>)\<close>

text \<open>
  \<open>interface Experience\<close>. The declaration makes \<open>company\<close>, \<open>title\<close> and \<open>description\<close>
  mandatory, but \<open>replaceEntireResume\<close> installs \<open>completeResume.experiences\<close>, of type
  \<open>any\<close>, without a check, and the store guards its own reads (\<open>e.id &&\<close>,
  \<open>e.company &&\<close>, \<open>prev.description || []\<close>): every field may be \<open>undefined\<close> at run
  time, which is \<open>None\<close> here. Values that are present have the declared type.
\<close>

record Experience =
  e_id :: "string option"
  e_company :: "string option"
  e_title :: "string option"
  e_duration :: "string option"
  e_description :: "string list option"

text \<open>\<open>interface Resume\<close>, the \<open>resume\<close> slice of the store.\<close>

record Resume =
  r_experiences :: "Experience list"
  r_skills :: "string list"
  r_summary :: string
  r_fullName :: "string option"
  r_email :: "string option"
  r_phone :: "string option"
  r_location :: "string option"
  r_title :: "string option"

text \<open>The exception a store action lets escape: reading \<open>.trim\<close> of \<open>undefined\<close>.\<close>

datatype thrown = TypeError

text \<open>The initial state of the store, which is also what \<open>resetResume\<close> installs.\<close>

definition emptyResume :: Resume where
  "emptyResume =
     \<lparr>r_experiences = [], r_skills = [], r_summary = [],
      r_fullName = Some [], r_email = Some [], r_phone = Some [],
      r_location = Some [], r_title = Some []\<rparr>"

subsection \<open>Experiences\<close>

text \<open>
  The predicate of \<open>findIndex\<close> in \<open>addOrUpdateExperience\<close>, a disjunction tested
  on one entry at a time:
  \<^verbatim>\<open>(exp.id && e.id && e.id === exp.id) ||
  (e.company && exp.company &&
   e.company.trim().toLowerCase() === exp.company.trim().toLowerCase())\<close>
\<close>

definition company_key :: "string option \<Rightarrow> string option" where
  "company_key c = map_option (\<lambda>s. toLowerCase (trim s)) c"

definition id_matches :: "Experience \<Rightarrow> Experience \<Rightarrow> bool" where
  "id_matches ex e \<longleftrightarrow> truthy (e_id ex) \<and> truthy (e_id e) \<and> e_id e = e_id ex"

definition company_matches :: "Experience \<Rightarrow> Experience \<Rightarrow> bool" where
  "company_matches ex e \<longleftrightarrow>
     truthy (e_company e) \<and> truthy (e_company ex) \<and>
     company_key (e_company e) = company_key (e_company ex)"

definition same_experience :: "Experience \<Rightarrow> Experience \<Rightarrow> bool" where
  "same_experience ex e \<longleftrightarrow> id_matches ex e \<or> company_matches ex e"

text \<open>
  The constant \<open>exp\<close> of \<open>addOrUpdateExperience\<close> (written \<open>ex\<close> below, \<open>exp\<close> being
  the exponential function of the library):
  \<^verbatim>\<open>{...incoming, id: incoming.id || makeId(),
   description: Array.from(new Set(incoming.description || []))}\<close>.
  \<open>fresh\<close> is the value \<open>makeId()\<close> returns when it is called (time stamp and random
  digits).
\<close>

definition exp_of :: "string \<Rightarrow> Experience \<Rightarrow> Experience" where
  "exp_of fresh incoming =
     incoming
       \<lparr>e_id := (if truthy (e_id incoming) then e_id incoming else Some fresh),
        e_description := Some (array_from_set (or_array (e_description incoming)))\<rparr>"

text \<open>
  The constant \<open>merged\<close>:
  \<^verbatim>\<open>{...prev, ...exp, id: prev.id || exp.id,
   description: Array.from(new Set([...(prev.description || []),
                                    ...(exp.description || [])]))}\<close>.
  \<open>exp\<close> has all five keys, as the object literal that \<open>applyResumePatch\<close> passes
  has; so the spread takes \<open>company\<close>, \<open>title\<close> and \<open>duration\<close> from \<open>exp\<close>,
  whatever \<open>prev\<close> holds.
\<close>

definition merged :: "Experience \<Rightarrow> Experience \<Rightarrow> Experience" where
  "merged prev ex =
     ex\<lparr>e_id := or_else (e_id prev) (e_id ex),
        e_description :=
          Some (array_from_set (or_array (e_description prev) @ or_array (e_description ex)))\<rparr>"

definition addOrUpdateExperience :: "string \<Rightarrow> Experience \<Rightarrow> Resume \<Rightarrow> Resume" where
  "addOrUpdateExperience fresh incoming state =
     (let ex = exp_of fresh incoming
      in case findIndex (same_experience ex) (r_experiences state) of
           Some idx \<Rightarrow>
             (let prev = r_experiences state ! idx
              in state\<lparr>r_experiences := (r_experiences state)[idx := merged prev ex]\<rparr>)
         | None \<Rightarrow> state\<lparr>r_experiences := r_experiences state @ [ex]\<rparr>)"

text \<open>
  \<open>removeExperience\<close>. The filter predicate reads \<open>e.company.trim()\<close> whenever the id
  test is false, with no guard: on an entry without \<open>company\<close> that is a \<open>TypeError\<close>,
  thrown out of \<open>filter\<close> at the first such entry.
\<close>

definition remove_matches :: "string \<Rightarrow> Experience \<Rightarrow> thrown + bool" where
  "remove_matches idOrCompany e =
     (if truthy (e_id e) \<and> e_id e = Some idOrCompany then Inr True
      else case e_company e of
             None \<Rightarrow> Inl TypeError
           | Some c \<Rightarrow> Inr (toLowerCase (trim c) = toLowerCase (trim idOrCompany)))"

fun filter_experiences :: "string \<Rightarrow> Experience list \<Rightarrow> thrown + Experience list" where
  "filter_experiences k [] = Inr []"
| "filter_experiences k (e # es) =
     (case remove_matches k e of
        Inl t \<Rightarrow> Inl t
      | Inr b \<Rightarrow>
          (case filter_experiences k es of
             Inl t \<Rightarrow> Inl t
           | Inr kept \<Rightarrow> Inr (if b then kept else e # kept)))"

definition removeExperience :: "string \<Rightarrow> Resume \<Rightarrow> thrown + Resume" where
  "removeExperience idOrCompany state =
     (case filter_experiences idOrCompany (r_experiences state) of
        Inl t \<Rightarrow> Inl t
      | Inr kept \<Rightarrow> Inr (state\<lparr>r_experiences := kept\<rparr>))"

definition clearAllExperiences :: "Resume \<Rightarrow> Resume" where
  "clearAllExperiences state = state\<lparr>r_experiences := []\<rparr>"

subsection \<open>Skills\<close>

text \<open>
  \<open>addSkills\<close>:
  \<^verbatim>\<open>Array.from(new Set([...state.resume.skills,
                      ...newSkills.map((s) => s.trim()).filter(Boolean)]))\<close>
\<close>

definition addSkills :: "string list \<Rightarrow> Resume \<Rightarrow> Resume" where
  "addSkills newSkills state =
     state\<lparr>r_skills :=
       array_from_set (r_skills state @ filter (\<lambda>s. s \<noteq> []) (map trim newSkills))\<rparr>"

definition removeSkills :: "string list \<Rightarrow> Resume \<Rightarrow> Resume" where
  "removeSkills skillsToRemove state =
     (let toRemove = map (\<lambda>s. trim (toLowerCase s)) skillsToRemove
      in state\<lparr>r_skills :=
           filter (\<lambda>s. trim (toLowerCase s) \<notin> set toRemove) (r_skills state)\<rparr>)"

definition clearAllSkills :: "Resume \<Rightarrow> Resume" where
  "clearAllSkills state = state\<lparr>r_skills := []\<rparr>"

subsection \<open>Summary, contact, whole document\<close>

definition setSummary :: "string \<Rightarrow> Resume \<Rightarrow> Resume" where
  "setSummary s state = state\<lparr>r_summary := s\<rparr>"

definition clearSummary :: "Resume \<Rightarrow> Resume" where
  "clearSummary state = state\<lparr>r_summary := []\<rparr>"

text \<open>
  A property of an object literal: \<open>NoKey\<close> when the object has no such key, \<open>Key v\<close>
  when it has one, whose value \<open>v\<close> may be \<open>undefined\<close> (\<open>None\<close>). The spread
  \<open>{...state.resume, ...c}\<close> of \<open>setContactInfo\<close> copies every key \<open>c\<close> has, also
  one whose value is \<open>undefined\<close>.
\<close>

datatype 'a property = NoKey | Key 'a

record Contact =
  c_fullName :: "string option property"
  c_email :: "string option property"
  c_phone :: "string option property"
  c_location :: "string option property"
  c_title :: "string option property"

definition spread :: "'a \<Rightarrow> 'a property \<Rightarrow> 'a" where
  "spread old p = (case p of NoKey \<Rightarrow> old | Key v \<Rightarrow> v)"

text \<open>
  \<open>setContactInfo\<close>, on the \<open>resume\<close> slice. (It also copies the truthy fields into
  \<open>userBasicInfo\<close>, which is not part of the document.)
\<close>

definition setContactInfo :: "Contact \<Rightarrow> Resume \<Rightarrow> Resume" where
  "setContactInfo c state =
     state\<lparr>r_fullName := spread (r_fullName state) (c_fullName c),
           r_email := spread (r_email state) (c_email c),
           r_phone := spread (r_phone state) (c_phone c),
           r_location := spread (r_location state) (c_location c),
           r_title := spread (r_title state) (c_title c)\<rparr>"

definition resetResume :: "Resume \<Rightarrow> Resume" where
  "resetResume state = emptyResume"

definition replaceEntireResume :: "Resume \<Rightarrow> Resume \<Rightarrow> Resume" where
  "replaceEntireResume newResume state = newResume"

section \<open>The Applicator (\<open>applyResumePatch\<close> in \<open>geminiService.ts\<close>)\<close>

datatype Operation = OpPatch | OpReplace | OpReset

text \<open>\<open>NormalizedResumePatch.experience\<close>: five optional fields.\<close>

record PatchExperience =
  pe_id :: "string option"
  pe_company :: "string option"
  pe_title :: "string option"
  pe_duration :: "string option"
  pe_description :: "string list option"

text \<open>
  \<open>completeResume\<close> is declared \<open>any\<close>. The Applicator reads \<open>experiences\<close>,
  \<open>skills\<close>, \<open>summary\<close>, \<open>fullName\<close> and the five fields of \<open>contact\<close> from it; each
  may be missing (all are, when the value is truthy without being an object). The
  entries of \<open>experiences\<close> are objects whose fields may be missing as well.
\<close>

record CompleteContact =
  cc_fullName :: "string option"
  cc_email :: "string option"
  cc_phone :: "string option"
  cc_location :: "string option"
  cc_title :: "string option"

record CompleteResume =
  cr_experiences :: "Experience list option"
  cr_skills :: "string list option"
  cr_summary :: "string option"
  cr_fullName :: "string option"
  cr_contact :: "CompleteContact option"

text \<open>\<open>interface NormalizedResumePatch\<close>.\<close>

record NormalizedResumePatch =
  p_operation :: Operation
  p_experience :: "PatchExperience option"
  p_skills :: "string list option"
  p_removeSkills :: "string list option"
  p_removeExperiences :: "string list option"
  p_clearSections :: "string list option"
  p_summary :: "string option"
  p_completeResume :: "CompleteResume option"
  p_contact :: "Contact option"

text \<open>\<open>patch.clearSections?.includes(name)\<close>.\<close>

definition clears :: "NormalizedResumePatch \<Rightarrow> string \<Rightarrow> bool" where
  "clears patch name = (case p_clearSections patch of None \<Rightarrow> False | Some ns \<Rightarrow> name \<in> set ns)"

text \<open>\<open>patch.completeResume.contact?.f\<close>.\<close>

definition contact_field :: "CompleteResume \<Rightarrow> (CompleteContact \<Rightarrow> string option) \<Rightarrow> string option" where
  "contact_field cr f = (case cr_contact cr of None \<Rightarrow> None | Some c \<Rightarrow> f c)"

text \<open>The object literal handed to \<open>replaceEntireResume\<close>.\<close>

definition resume_of_complete :: "CompleteResume \<Rightarrow> Resume" where
  "resume_of_complete cr =
     \<lparr>r_experiences = or_array (cr_experiences cr),
      r_skills = or_array (cr_skills cr),
      r_summary = or_string (cr_summary cr) [],
      r_fullName = Some (or_string (or_else (contact_field cr cc_fullName) (cr_fullName cr)) []),
      r_email = Some (or_string (contact_field cr cc_email) []),
      r_phone = Some (or_string (contact_field cr cc_phone) []),
      r_location = Some (or_string (contact_field cr cc_location) []),
      r_title = Some (or_string (contact_field cr cc_title) [])\<rparr>"

text \<open>The blocks of \<open>applyResumePatch\<close> below the operation tests, in source order.\<close>

definition apply_clears :: "NormalizedResumePatch \<Rightarrow> Resume \<Rightarrow> Resume" where
  "apply_clears patch state =
     (let s1 = (if clears patch ''experiences'' then clearAllExperiences state else state);
          s2 = (if clears patch ''skills'' then clearAllSkills s1 else s1)
      in if clears patch ''summary'' then clearSummary s2 else s2)"

text \<open>The object literal that \<open>applyResumePatch\<close> hands to \<open>addOrUpdateExperience\<close>.\<close>

definition incoming_experience :: "PatchExperience \<Rightarrow> Experience" where
  "incoming_experience e =
     \<lparr>e_id = pe_id e,
      e_company = pe_company e,
      e_title = Some (or_string (pe_title e) []),
      e_duration = Some (or_string (pe_duration e) []),
      e_description = Some (or_array (pe_description e))\<rparr>"

definition apply_experience :: "string \<Rightarrow> NormalizedResumePatch \<Rightarrow> Resume \<Rightarrow> Resume" where
  "apply_experience fresh patch state =
     (case p_experience patch of
        None \<Rightarrow> state
      | Some e \<Rightarrow>
          if truthy (pe_company e)
          then addOrUpdateExperience fresh (incoming_experience e) state
          else state)"

fun remove_each :: "string list \<Rightarrow> Resume \<Rightarrow> thrown + Resume" where
  "remove_each [] state = Inr state"
| "remove_each (k # ks) state =
     (case removeExperience k state of
        Inl t \<Rightarrow> Inl t
      | Inr state' \<Rightarrow> remove_each ks state')"

definition apply_removeExperiences :: "NormalizedResumePatch \<Rightarrow> Resume \<Rightarrow> thrown + Resume" where
  "apply_removeExperiences patch state =
     (case p_removeExperiences patch of
        None \<Rightarrow> Inr state
      | Some ks \<Rightarrow> remove_each ks state)"

definition apply_skills :: "NormalizedResumePatch \<Rightarrow> Resume \<Rightarrow> Resume" where
  "apply_skills patch state =
     (case p_skills patch of
        None \<Rightarrow> state
      | Some ss \<Rightarrow> if ss \<noteq> [] then addSkills ss state else state)"

definition apply_removeSkills :: "NormalizedResumePatch \<Rightarrow> Resume \<Rightarrow> Resume" where
  "apply_removeSkills patch state =
     (case p_removeSkills patch of
        None \<Rightarrow> state
      | Some ss \<Rightarrow> if ss \<noteq> [] then removeSkills ss state else state)"

definition apply_summary :: "NormalizedResumePatch \<Rightarrow> Resume \<Rightarrow> Resume" where
  "apply_summary patch state =
     (case p_summary patch of
        None \<Rightarrow> state
      | Some s \<Rightarrow> if trim s \<noteq> [] then setSummary (trim s) state else state)"

definition apply_contact :: "NormalizedResumePatch \<Rightarrow> Resume \<Rightarrow> Resume" where
  "apply_contact patch state =
     (case p_contact patch of
        None \<Rightarrow> state
      | Some c \<Rightarrow> setContactInfo c state)"

text \<open>
  \<open>applyResumePatch\<close>. The store is the document before the call; the result is the
  document after it, or the exception that escaped. \<open>fresh\<close> is the identifier
  \<open>makeId()\<close> produces if the call needs one. There is no \<open>try\<close> in the function: what
  a store action throws leaves it. The actions that ran before the throw have changed
  the store by then; of a call that throws the model keeps only that it threw.
\<close>

definition applyResumePatch :: "string \<Rightarrow> NormalizedResumePatch \<Rightarrow> Resume \<Rightarrow> thrown + Resume" where
  "applyResumePatch fresh patch state =
     (if p_operation patch = OpReset then Inr (resetResume state)
      else case (if p_operation patch = OpReplace then p_completeResume patch else None) of
        Some cr \<Rightarrow> Inr (replaceEntireResume (resume_of_complete cr) state)
      | None \<Rightarrow>
          (case apply_removeExperiences patch
                  (apply_experience fresh patch (apply_clears patch state)) of
             Inl t \<Rightarrow> Inl t
           | Inr s \<Rightarrow>
               Inr (apply_contact patch
                     (apply_summary patch
                       (apply_removeSkills patch
                         (apply_skills patch s))))))"


text \<open>A sequence of Applicator calls, each with the identifier it would draw.\<close>

fun apply_all :: "(string \<times> NormalizedResumePatch) list \<Rightarrow> Resume \<Rightarrow> thrown + Resume" where
  "apply_all [] state = Inr state"
| "apply_all ((fresh, patch) # rest) state =
     (case applyResumePatch fresh patch state of
        Inl t \<Rightarrow> Inl t
      | Inr state' \<Rightarrow> apply_all rest state')"


section \<open>JSON values\<close>

text \<open>
  The values \<open>JSON.parse\<close> returns, and \<open>undefined\<close>. A number is its value (the
  code modelled here reads of a number only whether it is zero; \<open>Infinity\<close>, which
  \<open>JSON.parse\<close> gives for a literal such as \<open>1e999\<close>, is left out). An object is the
  list of its keys, each once, with their values.
\<close>

datatype jsval =
    Undefined
  | Null
  | Bool bool
  | Num rat
  | Str string
  | Arr "jsval list"
  | Obj "(string \<times> jsval) list"

text \<open>Truthiness, as \<open>if (v)\<close>, \<open>v ? a : b\<close>, \<open>!v\<close> and \<open>v && w\<close> read it.\<close>

fun truthy_value :: "jsval \<Rightarrow> bool" where
  "truthy_value Undefined = False"
| "truthy_value Null = False"
| "truthy_value (Bool b) = b"
| "truthy_value (Num n) = (n \<noteq> 0)"
| "truthy_value (Str s) = (s \<noteq> [])"
| "truthy_value (Arr xs) = True"
| "truthy_value (Obj kvs) = True"




section \<open>The Extractor (\<open>extractJsonBlock\<close> in \<open>geminiService.ts\<close>)\<close>

subsection \<open>\<open>safeJsonParse\<close>\<close>

text \<open>
  \<open>.replace(/[\<dots>]/g, '"')\<close> with the two curly double quotes U+201C and U+201D in the
  class: each occurrence (bytes E2 80 9C and E2 80 9D) becomes a straight quote.
\<close>

fun straighten_quotes :: "string \<Rightarrow> string" where
  "straighten_quotes (a # b # c # rest) =
     (if a = CHR 0xE2 \<and> b = CHR 0x80 \<and> (c = CHR 0x9C \<or> c = CHR 0x9D)
      then CHR 0x22 # straighten_quotes rest
      else a # straighten_quotes (b # c # rest))"
| "straighten_quotes s = s"

lemma length_strip_start: "length (strip_start seqs s) \<le> length s"
proof (induction seqs s rule: strip_start.induct)
  case (1 seqs s)
  show ?case
  proof (cases "List.find (\<lambda>w. w \<noteq> [] \<and> prefix w s) seqs")
    case None
    then show ?thesis by (simp add: strip_start.simps)
  next
    case (Some w)
    with 1 have "length (strip_start seqs (drop (length w) s)) \<le> length (drop (length w) s)"
      by simp
    with Some show ?thesis by (simp add: strip_start.simps)
  qed
qed

text \<open>
  \<open>.replace(/,\s*([}\]])/g, '$1')\<close>: a comma that is followed, after any white space,
  by a closing brace or bracket is removed together with that white space; the scan goes
  on behind the bracket.
\<close>

function remove_trailing_commas :: "string \<Rightarrow> string" where
  "remove_trailing_commas [] = []"
| "remove_trailing_commas (c # cs) =
     (if c = CHR '','' then
        (case strip_start whitespace cs of
           [] \<Rightarrow> c # remove_trailing_commas cs
         | b # rest \<Rightarrow>
             if b = CHR ''}'' \<or> b = CHR '']'' then b # remove_trailing_commas rest
             else c # remove_trailing_commas cs)
      else c # remove_trailing_commas cs)"
  by pat_completeness auto
termination
proof (relation "measure length")
  show "wf (measure length)" by simp
next
  fix c :: char and cs :: string
  show "(cs, c # cs) \<in> measure length" by simp
next
  fix c b :: char and cs rest :: string
  assume "strip_start whitespace cs = b # rest"
  then have "Suc (length rest) \<le> length cs"
    using length_strip_start [of whitespace cs] by simp
  then show "(rest, c # cs) \<in> measure length" by simp
next
  fix c :: char and cs :: string
  show "(cs, c # cs) \<in> measure length" by simp
next
  fix c :: char and cs :: string
  show "(cs, c # cs) \<in> measure length" by simp
qed

text \<open>
  The recovery of \<open>safeJsonParse\<close>:
  \<^verbatim>\<open>raw.replace(/^[\s`]+|[\s`]+$/g, '')\<close> strips the leading and the trailing run of
  white space and backticks, then the two replacements above.
\<close>

definition space_or_backtick :: "string list" where
  "space_or_backtick = [CHR 0x60] # whitespace"

definition cleaned :: "string \<Rightarrow> string" where
  "cleaned raw =
     remove_trailing_commas
       (straighten_quotes
         (strip_end space_or_backtick (strip_start space_or_backtick raw)))"

text \<open>
  \<open>JSON.parse\<close> belongs to the JavaScript runtime, not to the repository: it is the
  parameter \<open>parse\<close>, which gives \<open>None\<close> where \<open>JSON.parse\<close> throws a
  \<open>SyntaxError\<close>. \<open>safeJsonParse\<close> returns \<open>null\<close> when both attempts throw.
\<close>

definition safeJsonParse :: "(string \<Rightarrow> jsval option) \<Rightarrow> string \<Rightarrow> jsval" where
  "safeJsonParse parse raw =
     (case parse raw of
        Some v \<Rightarrow> v
      | None \<Rightarrow> (case parse (cleaned raw) of Some v \<Rightarrow> v | None \<Rightarrow> Null))"

subsection \<open>Matching\<close>

text \<open>
  \<open>search P s\<close> is the least \<open>i\<close> such that \<open>P\<close> holds of \<open>s\<close> from position \<open>i\<close> on:
  the position at which a pattern scanned from the left first matches.
\<close>

fun search :: "(string \<Rightarrow> bool) \<Rightarrow> string \<Rightarrow> nat option" where
  "search P [] = (if P [] then Some 0 else None)"
| "search P (c # cs) = (if P (c # cs) then Some 0 else map_option Suc (search P cs))"

text \<open>
  A literal under the flag \<open>i\<close>. The literals here are ASCII, and without the flag
  \<open>u\<close> only an ASCII letter is matched by an ASCII letter of the other case.
\<close>

definition starts_with_ci :: "string \<Rightarrow> string \<Rightarrow> bool" where
  "starts_with_ci lit s \<longleftrightarrow> toLowerCase (take (length lit) s) = toLowerCase lit"

definition open_tag :: string where
  "open_tag = ''[RESUME_DATA]''"

definition close_tag :: string where
  "close_tag = ''[/RESUME_DATA]''"

definition fence :: string where
  "fence = ''```''"

text \<open>\<open>text.search(/\[RESUME_DATA\]/i)\<close>, with \<open>None\<close> for \<open>-1\<close>.\<close>

definition search_open_tag :: "string \<Rightarrow> nat option" where
  "search_open_tag text = search (starts_with_ci open_tag) text"

text \<open>
  \<open>text.match(/\[RESUME_DATA\]([\s\S]*?)\[\/RESUME_DATA\]/i)\<close>, the capture group. The
  match starts at the first opening tag: if no closing tag follows it, none follows a
  later opening tag either. The lazy group ends at the first closing tag behind it.
\<close>

definition match_pair :: "string \<Rightarrow> string option" where
  "match_pair text =
     (case search_open_tag text of
        None \<Rightarrow> None
      | Some i \<Rightarrow>
          (let rest = drop (i + length open_tag) text
           in case search (starts_with_ci close_tag) rest of
                None \<Rightarrow> None
              | Some j \<Rightarrow> Some (take j rest)))"

text \<open>\<open>s.indexOf(c)\<close> and the position of the last \<open>c\<close>, with \<open>None\<close> for \<open>-1\<close>.\<close>

definition indexOf :: "char \<Rightarrow> string \<Rightarrow> nat option" where
  "indexOf c s = search (\<lambda>t. case t of [] \<Rightarrow> False | d # _ \<Rightarrow> d = c) s"

definition lastIndexOf :: "char \<Rightarrow> string \<Rightarrow> nat option" where
  "lastIndexOf c s = map_option (\<lambda>k. length s - 1 - k) (indexOf c (rev s))"

text \<open>
  The brace-counting loop, started on the first \<open>{\<close> with \<open>depth = 0\<close>: the number of
  characters up to and including the \<open>}\<close> at which \<open>depth\<close> is \<open>0\<close> again, \<open>None\<close> when
  the text ends first.
\<close>

fun balanced_end :: "int \<Rightarrow> string \<Rightarrow> nat option" where
  "balanced_end depth [] = None"
| "balanced_end depth (c # cs) =
     (if c = CHR ''{'' then map_option Suc (balanced_end (depth + 1) cs)
      else if c = CHR ''}'' then
        (if depth - 1 = 0 then Some 1 else map_option Suc (balanced_end (depth - 1) cs))
      else map_option Suc (balanced_end depth cs))"

text \<open>
  \<open>extractFirstBalancedObject\<close> of \<open>parseResumeData.ts\<close>; the loop in step 2 of
  \<open>extractJsonBlock\<close> selects the same candidate.
\<close>

definition extractFirstBalancedObject :: "string \<Rightarrow> string option" where
  "extractFirstBalancedObject text =
     (case indexOf (CHR ''{'') text of
        None \<Rightarrow> None
      | Some start \<Rightarrow>
          (case balanced_end 0 (drop start text) of
             None \<Rightarrow> None
           | Some n \<Rightarrow> Some (take n (drop start text))))"

text \<open>
  \<open>text.match(/```(?:json)?\s*([\s\S]*?)```/i)\<close>, the capture group: behind the first
  fence an optional \<open>json\<close> and any white space are skipped, and the lazy group ends at
  the next fence. Neither \<open>json\<close> nor white space contains a backtick, so backtracking
  into them finds no other closing fence, and a later start finds none that the first
  start does not.
\<close>

definition match_fence :: "string \<Rightarrow> string option" where
  "match_fence text =
     (case search (prefix fence) text of
        None \<Rightarrow> None
      | Some i \<Rightarrow>
          (let rest = drop (i + length fence) text;
               rest' = (if starts_with_ci ''json'' rest then drop 4 rest else rest);
               body = strip_start whitespace rest'
           in case search (prefix fence) body of
                None \<Rightarrow> None
              | Some j \<Rightarrow> Some (take j body)))"

text \<open>
  \<open>text.match(/\{[\s\S]*\}/)\<close>, the whole match: from the first \<open>{\<close> to the last
  \<open>}\<close> of the text, when that \<open>}\<close> comes behind it.
\<close>

definition match_braces :: "string \<Rightarrow> string option" where
  "match_braces text =
     (case indexOf (CHR ''{'') text of
        None \<Rightarrow> None
      | Some i \<Rightarrow>
          (case lastIndexOf (CHR ''}'') text of
             None \<Rightarrow> None
           | Some j \<Rightarrow> if i < j then Some (take (j + 1 - i) (drop i text)) else None))"

subsection \<open>The four steps\<close>

text \<open>What \<open>extractJsonBlock\<close> returns: \<open>{ data, error }\<close>.\<close>

record Extracted =
  data :: jsval
  error :: "string option"

text \<open>
  Each numbered step of \<open>extractJsonBlock\<close> is a function that gives \<open>Some\<close> result
  when the step returns and \<open>None\<close> when control falls through to the next step.
\<close>

definition tagged_block :: "(string \<Rightarrow> jsval option) \<Rightarrow> string \<Rightarrow> Extracted option" where
  "tagged_block parse text =
     (case match_pair text of
        None \<Rightarrow> None
      | Some inner \<Rightarrow>
          (let parsed = safeJsonParse parse (trim inner)
           in Some \<lparr>data = parsed,
                    error = (if truthy_value parsed then None
                             else Some ''Tagged JSON not parseable'')\<rparr>))"

definition opening_tag_only :: "(string \<Rightarrow> jsval option) \<Rightarrow> string \<Rightarrow> Extracted option" where
  "opening_tag_only parse text =
     (case search_open_tag text of
        None \<Rightarrow> None
      | Some openIdx \<Rightarrow>
          (let after = drop (openIdx + length open_tag) text;
               failed = \<lparr>data = Null, error = Some ''Opening tag without JSON''\<rparr>
           in case extractFirstBalancedObject after of
                None \<Rightarrow> Some failed
              | Some candidate \<Rightarrow>
                  (let parsed = safeJsonParse parse candidate
                   in if truthy_value parsed
                      then Some \<lparr>data = parsed,
                                 error = Some ''Missing closing tag, recovered JSON''\<rparr>
                      else Some failed)))"

definition fenced_block :: "(string \<Rightarrow> jsval option) \<Rightarrow> string \<Rightarrow> Extracted option" where
  "fenced_block parse text =
     (case match_fence text of
        None \<Rightarrow> None
      | Some inner \<Rightarrow>
          (let parsed = safeJsonParse parse (trim inner)
           in Some \<lparr>data = parsed,
                    error = (if truthy_value parsed then None
                             else Some ''Fenced JSON not parseable'')\<rparr>))"

definition object_fallback :: "(string \<Rightarrow> jsval option) \<Rightarrow> string \<Rightarrow> Extracted option" where
  "object_fallback parse text =
     (case match_braces text of
        None \<Rightarrow> None
      | Some candidate \<Rightarrow>
          (let parsed = safeJsonParse parse candidate
           in if truthy_value parsed
              then Some \<lparr>data = parsed, error = Some ''Used untagged JSON fallback''\<rparr>
              else None))"

definition extractJsonBlock :: "(string \<Rightarrow> jsval option) \<Rightarrow> string \<Rightarrow> Extracted" where
  "extractJsonBlock parse text =
     (case tagged_block parse text of
        Some r \<Rightarrow> r
      | None \<Rightarrow>
     (case opening_tag_only parse text of
        Some r \<Rightarrow> r
      | None \<Rightarrow>
     (case fenced_block parse text of
        Some r \<Rightarrow> r
      | None \<Rightarrow>
     (case object_fallback parse text of
        Some r \<Rightarrow> r
      | None \<Rightarrow> \<lparr>data = Null, error = Some ''No JSON found''\<rparr>))))"

subsection \<open>The candidate of \<open>parseResumeData\<close> (\<open>parseResumeData.ts\<close>)\<close>

text \<open>
  \<open>parseResumeData\<close> is a second extractor of the repository, which
  \<open>geminiService.ts\<close> does not call. The text it goes on to parse is selected in another
  order: the fenced block first, then the first balanced object behind a
  \<open>[RESUME_DATA]\<close> (matched as written, case-sensitively), then the first balanced
  object of the whole text. \<open>!candidate\<close> is true of \<open>null\<close> and of the empty string.
  \<open>None\<close> is the outcome \<open>NO_JSON_FOUND\<close> (\<open>EMPTY_INPUT\<close> for the empty text).
\<close>

definition byte_order_mark :: string where
  "byte_order_mark = [CHR 0xEF, CHR 0xBB, CHR 0xBF]"

definition parseResumeData_candidate :: "string \<Rightarrow> string option" where
  "parseResumeData_candidate raw =
     (let work = (if prefix byte_order_mark raw then drop (length byte_order_mark) raw else raw);
          fenced = (case match_fence work of
                      None \<Rightarrow> None
                    | Some inner \<Rightarrow> if inner = [] then None else Some inner);
          tagged = (case fenced of
                      Some c \<Rightarrow> Some c
                    | None \<Rightarrow>
                        (case search (prefix open_tag) work of
                           None \<Rightarrow> None
                         | Some tagIdx \<Rightarrow>
                             extractFirstBalancedObject (drop (tagIdx + length open_tag) work)))
      in case tagged of
           Some c \<Rightarrow> Some c
         | None \<Rightarrow> extractFirstBalancedObject work)"

section \<open>The Normalizer: the contact of the patch (\<open>normalizeResumeData\<close>)\<close>





section \<open>Scenarios\<close>

text \<open>
  The merge scenario of the specification: a document with the single experience
  \<open>{id: "1", company: "Acme", title: "Eng", description: ["Shipped X"]}\<close> and the
  patch \<open>{operation: "patch", experience: {company: "Acme", description: ["Shipped Y"]}}\<close>.
\<close>

definition acme_doc :: Resume where
  "acme_doc = emptyResume
     \<lparr>r_experiences :=
        [\<lparr>e_id = Some ''1'', e_company = Some ''Acme'', e_title = Some ''Eng'',
          e_duration = None, e_description = Some [''Shipped X'']\<rparr>]\<rparr>"

definition no_patch :: NormalizedResumePatch where
  "no_patch =
     \<lparr>p_operation = OpPatch, p_experience = None, p_skills = None, p_removeSkills = None,
      p_removeExperiences = None, p_clearSections = None, p_summary = None,
      p_completeResume = None, p_contact = None\<rparr>"

definition acme_patch :: NormalizedResumePatch where
  "acme_patch = no_patch
     \<lparr>p_experience :=
        Some \<lparr>pe_id = None, pe_company = Some ''Acme'', pe_title = None,
              pe_duration = None, pe_description = Some [''Shipped Y'']\<rparr>\<rparr>"

text \<open>Two entries, and a patch whose id is that of the second and whose company is that of the first.\<close>

definition two_jobs :: Resume where
  "two_jobs = emptyResume
     \<lparr>r_experiences :=
        [\<lparr>e_id = Some ''a'', e_company = Some ''Acme'', e_title = Some ''Clerk'',
          e_duration = Some ''2019'', e_description = Some []\<rparr>,
         \<lparr>e_id = Some ''b'', e_company = Some ''Globex'', e_title = Some ''Analyst'',
          e_duration = Some ''2021'', e_description = Some []\<rparr>]\<rparr>"



text \<open>
  A replace whose payload has an experience without \<open>company\<close>, as \<open>any\<close> allows, and a
  patch that removes an experience by name.
\<close>

definition replace_without_company :: NormalizedResumePatch where
  "replace_without_company = no_patch
     \<lparr>p_operation := OpReplace,
      p_completeResume :=
        Some \<lparr>cr_experiences =
                 Some [\<lparr>e_id = None, e_company = None, e_title = Some ''Engineer'',
                        e_duration = None, e_description = None\<rparr>],
              cr_skills = None, cr_summary = None, cr_fullName = None, cr_contact = None\<rparr>\<rparr>"

definition remove_acme :: NormalizedResumePatch where
  "remove_acme = no_patch\<lparr>p_removeExperiences := Some [''Acme'']\<rparr>"



text \<open>
  \<open>JSON.parse\<close> on the texts that the examples below hand to it: the value it returns
  for each of the three JSON texts listed, and \<open>None\<close> (a \<open>SyntaxError\<close>) otherwise. The
  examples apply it to these three texts and to texts that are not JSON.
\<close>

definition sample_parse :: \<open>string \<Rightarrow> jsval option\<close> where
  \<open>sample_parse = map_of
     [(''{"summary": "Backend engineer"}'', Obj [(''summary'', Str ''Backend engineer'')]),
      (''{"skills": ["Go","Rust"]}'', Obj [(''skills'', Arr [Str ''Go'', Str ''Rust''])]),
      (''{"a":1}'', Obj [(''a'', Num 1)])]\<close>



section \<open>Properties of the insertion-ordered set and of \<open>findIndex\<close>\<close>

lemma or_array_simps [simp]: "or_array None = []" "or_array (Some xs) = xs"
  by (simp_all add: or_array_def)

lemma array_from_set_Nil: "array_from_set [] = []"
  by (simp add: array_from_set_def)

lemma array_from_set_snoc: "array_from_set (xs @ [x]) = set_add (array_from_set xs) x"
  by (simp add: array_from_set_def)

lemma set_array_from_set: "set (array_from_set xs) = set xs"
  by (induction xs rule: rev_induct) (auto simp: array_from_set_snoc set_add_def array_from_set_def)

lemma distinct_array_from_set: "distinct (array_from_set xs)"
  by (induction xs rule: rev_induct) (auto simp: array_from_set_snoc set_add_def array_from_set_def)

lemma array_from_set_append:
  "array_from_set (xs @ ys) = array_from_set xs @ filter (\<lambda>y. y \<notin> set xs) (array_from_set ys)"
proof (induction ys rule: rev_induct)
  case Nil
  then show ?case by (simp add: array_from_set_def)
next
  case (snoc y ys)
  have "array_from_set (xs @ ys @ [y]) = set_add (array_from_set (xs @ ys)) y"
    using array_from_set_snoc [of "xs @ ys" y] by simp
  then show ?case
    using snoc by (auto simp: array_from_set_snoc set_add_def set_array_from_set)
qed

lemma array_from_set_distinct: "distinct xs \<Longrightarrow> array_from_set xs = xs"
  by (induction xs rule: rev_induct)
    (auto simp: array_from_set_Nil array_from_set_snoc set_add_def set_array_from_set)

lemma array_from_set_absorb:
  "array_from_set (array_from_set (xs @ ys) @ ys) = array_from_set (xs @ ys)"
proof -
  have "filter (\<lambda>y. y \<notin> set (array_from_set (xs @ ys))) (array_from_set ys) = []"
    by (auto simp: filter_empty_conv set_array_from_set)
  then show ?thesis
    using array_from_set_append [of "array_from_set (xs @ ys)" ys]
    by (simp add: array_from_set_distinct distinct_array_from_set)
qed

lemma findIndex_None: "findIndex P xs = None \<longleftrightarrow> (\<forall>x\<in>set xs. \<not> P x)"
  by (induction xs) auto

lemma findIndex_Some:
  "findIndex P xs = Some i \<longleftrightarrow> i < length xs \<and> P (xs ! i) \<and> (\<forall>j<i. \<not> P (xs ! j))"
proof (induction xs arbitrary: i)
  case Nil
  then show ?case by simp
next
  case (Cons x xs)
  show ?case
  proof (cases "P x")
    case True
    then show ?thesis by (cases i) auto
  next
    case False
    show ?thesis
    proof (cases i)
      case 0
      with False show ?thesis by auto
    next
      case (Suc k)
      with False Cons show ?thesis
        by (auto simp: less_Suc_eq_0_disj)
    qed
  qed
qed

section \<open>The skills of the document through one call\<close>














section \<open>Uniqueness of skills\<close>




section \<open>The upsert of an experience\<close>

text \<open>
  C2, evaluated on the merge scenario of the specification. The description becomes
  \<open>["Shipped X", "Shipped Y"]\<close>, as claimed; the title \<open>"Eng"\<close> does not stay: the
  call site passes \<open>title: patch.experience.title || ''\<close> and \<open>duration:
  patch.experience.duration || ''\<close>, and the spread \<open>{...prev, ...exp}\<close> lets these
  empty strings replace what the entry held.
\<close>

theorem merge_scenario_blanks_title:
  "applyResumePatch ''k1'' acme_patch acme_doc =
     Inr (acme_doc\<lparr>r_experiences :=
            [\<lparr>e_id = Some ''1'', e_company = Some ''Acme'', e_title = Some [],
              e_duration = Some [], e_description = Some [''Shipped X'', ''Shipped Y'']\<rparr>]\<rparr>)"
  by code_simp




text \<open>
  What a merge writes, for every existing entry and every incoming experience: the title
  and the duration are those passed by the call site, the empty string when the patch
  has none, and the description is the union of the existing lines and the incoming
  ones, existing lines first. An entry that the upsert writes has no line twice in its
  description, whatever the entry it is merged into held.
\<close>

lemma merged_fields:
  "e_title (merged prev (exp_of fresh (incoming_experience pe))) = Some (or_string (pe_title pe) []) \<and>
   e_duration (merged prev (exp_of fresh (incoming_experience pe)))
     = Some (or_string (pe_duration pe) []) \<and>
   e_description (merged prev (exp_of fresh (incoming_experience pe)))
     = Some (array_from_set (or_array (e_description prev) @
                            array_from_set (or_array (pe_description pe))))"
  by (simp add: merged_def exp_of_def incoming_experience_def)

lemma upsert_description_unique:
  "distinct (or_array (e_description (exp_of fresh incoming))) \<and>
   distinct (or_array (e_description (merged prev (exp_of fresh incoming))))"
  by (simp add: exp_of_def merged_def distinct_array_from_set)

section \<open>Idempotence of additive patches\<close>

lemma upsert_twice:
  assumes company: "truthy (e_company inc)"
    and nonempty: "f1 \<noteq> []"
    and fresh: "truthy (e_id inc) \<or> (\<forall>e\<in>set (r_experiences s). e_id e \<noteq> Some f2)"
  shows "addOrUpdateExperience f2 inc (addOrUpdateExperience f1 inc s) =
         addOrUpdateExperience f1 inc s"
proof -
  define ex1 where "ex1 = exp_of f1 inc"
  define ex2 where "ex2 = exp_of f2 inc"
  define es where "es = r_experiences s"
  have id1: "truthy (e_id ex1)"
    using nonempty by (simp add: ex1_def exp_of_def truthy_def)
  define ed where "ed = array_from_set (or_array (e_description inc))"
  have d1: "e_description ex1 = Some ed" and d2: "e_description ex2 = Some ed"
    by (simp_all add: ex1_def ex2_def exp_of_def ed_def)
  have twice: "array_from_set (ed @ ed) = ed"
    using array_from_set_append [of ed ed]
    by (simp add: ed_def array_from_set_distinct distinct_array_from_set)
  have rest: "ex2\<lparr>e_id := x, e_description := y\<rparr> = ex1\<lparr>e_id := x, e_description := y\<rparr>" for x y
    by (simp add: ex1_def ex2_def exp_of_def)
  have not_same: "\<not> same_experience ex2 e" if "e \<in> set es" "\<not> same_experience ex1 e" for e
    using that fresh
    by (auto simp: same_experience_def id_matches_def company_matches_def ex1_def ex2_def
        exp_of_def es_def)
  have by_company: "same_experience ex2 e" if "e_company e = e_company inc" for e
    using that company
    by (simp add: same_experience_def company_matches_def ex2_def exp_of_def)
  have first: "addOrUpdateExperience f1 inc s =
      (case findIndex (same_experience ex1) es of
         Some idx \<Rightarrow> s\<lparr>r_experiences := es[idx := merged (es ! idx) ex1]\<rparr>
       | None \<Rightarrow> s\<lparr>r_experiences := es @ [ex1]\<rparr>)"
    by (simp add: addOrUpdateExperience_def Let_def ex1_def es_def split: option.split)
  have second: "addOrUpdateExperience f2 inc t =
      (case findIndex (same_experience ex2) (r_experiences t) of
         Some idx \<Rightarrow> t\<lparr>r_experiences := (r_experiences t)[idx := merged (r_experiences t ! idx) ex2]\<rparr>
       | None \<Rightarrow> t\<lparr>r_experiences := r_experiences t @ [ex2]\<rparr>)" for t
    by (simp add: addOrUpdateExperience_def Let_def ex2_def split: option.split)
  show ?thesis
  proof (cases "findIndex (same_experience ex1) es")
    case None
    then have none: "\<forall>e\<in>set es. \<not> same_experience ex1 e"
      by (simp add: findIndex_None)
    have r1: "addOrUpdateExperience f1 inc s = s\<lparr>r_experiences := es @ [ex1]\<rparr>"
      using None by (simp add: first)
    have idx: "findIndex (same_experience ex2) (es @ [ex1]) = Some (length es)"
      unfolding findIndex_Some
      using none not_same by_company [of ex1]
      by (auto simp: nth_append ex1_def exp_of_def)
    have "merged ex1 ex2 = ex1\<lparr>e_id := e_id ex1, e_description := e_description ex1\<rparr>"
      by (simp add: merged_def or_else_def id1 rest d1 d2 twice)
    then have again: "merged ex1 ex2 = ex1"
      by simp
    show ?thesis
      unfolding r1 by (simp add: second idx again)
  next
    case (Some i)
    then have i: "i < length es" "\<forall>j<i. \<not> same_experience ex1 (es ! j)"
      by (simp_all add: findIndex_Some)
    define m where "m = merged (es ! i) ex1"
    have r1: "addOrUpdateExperience f1 inc s = s\<lparr>r_experiences := es[i := m]\<rparr>"
      using Some by (simp add: first m_def)
    have idm: "truthy (e_id m)"
      using id1 by (simp add: m_def merged_def or_else_def)
    have idx: "findIndex (same_experience ex2) (es[i := m]) = Some i"
      unfolding findIndex_Some
      using i not_same by_company [of m]
      by (auto simp: m_def merged_def ex1_def exp_of_def)
    have dm: "e_description m = Some (array_from_set (or_array (e_description (es ! i)) @ ed))"
      by (simp add: m_def merged_def d1)
    have "merged m ex2 = ex1\<lparr>e_id := e_id m, e_description := e_description m\<rparr>"
      by (simp add: merged_def [of m] or_else_def idm rest d2 dm array_from_set_absorb)
    also have "\<dots> = m"
      by (simp add: m_def merged_def)
    finally have again: "merged m ex2 = m" .
    show ?thesis
      unfolding r1 using i(1) by (simp add: second idx again)
  qed
qed

lemma addSkills_twice: "addSkills new (addSkills new s) = addSkills new s"
  by (simp add: addSkills_def array_from_set_absorb)

lemma apply_skills_twice: "apply_skills p (apply_skills p s) = apply_skills p s"
  by (simp add: apply_skills_def addSkills_twice split: option.split)

lemma apply_experience_twice:
  assumes "f1 \<noteq> []" and "\<forall>e\<in>set (r_experiences s). e_id e \<noteq> Some f2"
  shows "apply_experience f2 p (apply_experience f1 p s) = apply_experience f1 p s"
  using assms
  by (simp add: apply_experience_def upsert_twice incoming_experience_def split: option.split)

lemma apply_experience_skills:
  "apply_experience f p (apply_skills p s) = apply_skills p (apply_experience f p s)"
  by (simp add: apply_experience_def apply_skills_def addSkills_def addOrUpdateExperience_def Let_def
      split: option.split)

lemma additive_only:
  assumes "p_operation patch = OpPatch"
    and "p_clearSections patch = None" and "p_removeExperiences patch = None"
    and "p_removeSkills patch = None" and "p_summary patch = None" and "p_contact patch = None"
  shows "applyResumePatch f patch s = Inr (apply_skills patch (apply_experience f patch s))"
  using assms
  by (simp add: applyResumePatch_def apply_clears_def clears_def apply_removeExperiences_def
      apply_removeSkills_def apply_summary_def apply_contact_def)

text \<open>
  C5. A patch with operation \<open>patch\<close> that carries only \<open>experience\<close> and/or \<open>skills\<close>
  is idempotent: applied to any document it returns a document \<open>once\<close>, and applied
  again to \<open>once\<close> it returns \<open>once\<close>. The two calls may draw different identifiers
  from \<open>makeId()\<close>; what is used of \<open>makeId()\<close> is that its result is never the empty
  string (\<open>f1\<close>) and is not the id of an entry of the document (\<open>f2\<close>).
\<close>

theorem additive_patch_idempotent:
  assumes "p_operation patch = OpPatch"
    and "p_clearSections patch = None" and "p_removeExperiences patch = None"
    and "p_removeSkills patch = None" and "p_summary patch = None" and "p_contact patch = None"
    and "f1 \<noteq> []"
    and "\<forall>e\<in>set (r_experiences doc). e_id e \<noteq> Some f2"
  shows "\<exists>once. applyResumePatch f1 patch doc = Inr once \<and>
                applyResumePatch f2 patch once = Inr once"
proof -
  define once where "once = apply_skills patch (apply_experience f1 patch doc)"
  have "applyResumePatch f1 patch doc = Inr once"
    using assms(1-6) by (simp add: additive_only once_def)
  moreover have "apply_skills patch (apply_experience f2 patch once) = once"
    using assms(7,8)
    by (simp add: once_def apply_experience_skills apply_experience_twice apply_skills_twice)
  then have "applyResumePatch f2 patch once = Inr once"
    using assms(1-6) by (simp add: additive_only)
  ultimately show ?thesis by blast
qed

theorem additive_patch_idempotent_witness:
  "\<exists>once. applyResumePatch ''k1'' (acme_patch\<lparr>p_skills := Some [''Go'', ''go '']\<rparr>) acme_doc = Inr once \<and>
          applyResumePatch ''k2'' (acme_patch\<lparr>p_skills := Some [''Go'', ''go '']\<rparr>) once = Inr once"
proof -
  have "\<forall>e\<in>set (r_experiences acme_doc). e_id e \<noteq> Some ''k2''"
    by (simp add: acme_doc_def)
  then show ?thesis
    using additive_patch_idempotent
      [of "acme_patch\<lparr>p_skills := Some [''Go'', ''go '']\<rparr>" "''k1''" acme_doc "''k2''"]
    by (simp add: acme_patch_def no_patch_def)
qed

section \<open>Totality of the Applicator\<close>

text \<open>
  C6, evaluated. From the empty document, a replace whose \<open>completeResume\<close> holds an
  experience without \<open>company\<close> is installed as it is; the next patch asks to remove an
  experience by name, \<open>removeExperience\<close> reads \<open>e.company.trim()\<close> of that entry, and
  the \<open>TypeError\<close> leaves \<open>applyResumePatch\<close>.
\<close>

theorem applicator_throws:
  "apply_all [(''k1'', replace_without_company), (''k2'', remove_acme)] emptyResume = Inl TypeError"
  by code_simp

text \<open>
  What does hold: a patch without \<open>removeExperiences\<close> is always applied, and so is any
  patch to a document all of whose experiences have a company; the patch without fields
  changes nothing.
\<close>

lemma filter_experiences_returns:
  "\<forall>e\<in>set es. e_company e \<noteq> None \<Longrightarrow>
   \<exists>kept. filter_experiences k es = Inr kept \<and> set kept \<subseteq> set es"
proof (induction es)
  case Nil
  then show ?case by simp
next
  case (Cons e es)
  then obtain kept where "filter_experiences k es = Inr kept" "set kept \<subseteq> set es"
    by auto
  moreover from Cons.prems have "\<exists>b. remove_matches k e = Inr b"
    by (auto simp: remove_matches_def)
  ultimately show ?case by auto
qed

lemma remove_each_returns:
  "\<forall>e\<in>set (r_experiences s). e_company e \<noteq> None \<Longrightarrow> \<exists>s'. remove_each ks s = Inr s'"
proof (induction ks arbitrary: s)
  case Nil
  then show ?case by simp
next
  case (Cons k ks)
  from filter_experiences_returns [OF Cons.prems, of k]
  obtain kept where kept: "filter_experiences k (r_experiences s) = Inr kept"
    "set kept \<subseteq> set (r_experiences s)"
    by blast
  then have "\<forall>e\<in>set (r_experiences (s\<lparr>r_experiences := kept\<rparr>)). e_company e \<noteq> None"
    using Cons.prems by auto
  from Cons.IH [OF this] kept(1) show ?case
    by (simp add: removeExperience_def)
qed

lemma companies_addOrUpdateExperience:
  assumes "\<forall>e\<in>set (r_experiences s). e_company e \<noteq> None" and "e_company inc \<noteq> None"
  shows "\<forall>e\<in>set (r_experiences (addOrUpdateExperience f inc s)). e_company e \<noteq> None"
proof (cases "findIndex (same_experience (exp_of f inc)) (r_experiences s)")
  case None
  with assms show ?thesis
    by (auto simp: addOrUpdateExperience_def Let_def exp_of_def)
next
  case (Some i)
  have "e_company (merged (r_experiences s ! i) (exp_of f inc)) \<noteq> None"
    using assms(2) by (simp add: merged_def exp_of_def)
  with assms(1) Some show ?thesis
    by (auto simp: addOrUpdateExperience_def Let_def dest!: set_update_subset_insert [THEN subsetD])
qed

lemma companies_apply_experience:
  assumes "\<forall>e\<in>set (r_experiences s). e_company e \<noteq> None"
  shows "\<forall>e\<in>set (r_experiences (apply_experience f p s)). e_company e \<noteq> None"
proof (cases "p_experience p")
  case None
  with assms show ?thesis by (simp add: apply_experience_def)
next
  case (Some pe)
  show ?thesis
  proof (cases "truthy (pe_company pe)")
    case True
    then have "e_company (incoming_experience pe) \<noteq> None"
      by (auto simp: incoming_experience_def truthy_def split: option.splits)
    from companies_addOrUpdateExperience [OF assms this] Some True show ?thesis
      by (simp add: apply_experience_def)
  next
    case False
    with assms Some show ?thesis by (simp add: apply_experience_def)
  qed
qed

lemma companies_apply_clears:
  assumes "\<forall>e\<in>set (r_experiences s). e_company e \<noteq> None"
  shows "\<forall>e\<in>set (r_experiences (apply_clears p s)). e_company e \<noteq> None"
  using assms
  by (simp add: apply_clears_def Let_def clearAllExperiences_def clearAllSkills_def clearSummary_def)

lemma applicator_returns:
  assumes "p_removeExperiences patch = None \<or> (\<forall>e\<in>set (r_experiences doc). e_company e \<noteq> None)"
  shows "\<exists>doc'. applyResumePatch fresh patch doc = Inr doc'"
proof (cases "p_removeExperiences patch")
  case None
  then show ?thesis
    by (simp add: applyResumePatch_def apply_removeExperiences_def split: option.split)
next
  case (Some ks)
  with assms have "\<forall>e\<in>set (r_experiences doc). e_company e \<noteq> None"
    by simp
  then have "\<forall>e\<in>set (r_experiences (apply_experience fresh patch (apply_clears patch doc))).
      e_company e \<noteq> None"
    by (intro companies_apply_experience companies_apply_clears)
  from remove_each_returns [OF this, of ks] Some show ?thesis
    by (auto simp: applyResumePatch_def apply_removeExperiences_def split: option.split)
qed

lemma applicator_returns_witness:
  "\<exists>doc'. applyResumePatch ''k1'' remove_acme two_jobs = Inr doc'"
proof -
  have "\<forall>e\<in>set (r_experiences two_jobs). e_company e \<noteq> None"
    by (simp add: two_jobs_def)
  then show ?thesis
    using applicator_returns [of remove_acme two_jobs "''k1''"] by blast
qed

lemma empty_patch_changes_nothing: "applyResumePatch fresh no_patch doc = Inr doc"
  by (simp add: applyResumePatch_def no_patch_def apply_clears_def clears_def
      apply_experience_def apply_removeExperiences_def apply_skills_def apply_removeSkills_def
      apply_summary_def apply_contact_def)

lemma reset_is_absorbing:
  "p_operation patch = OpReset \<Longrightarrow> applyResumePatch fresh patch doc = Inr emptyResume"
  by (simp add: applyResumePatch_def resetResume_def)

lemma reset_is_absorbing_witness:
  "applyResumePatch ''k1'' (acme_patch\<lparr>p_operation := OpReset\<rparr>) two_jobs = Inr emptyResume"
  using reset_is_absorbing [of "acme_patch\<lparr>p_operation := OpReset\<rparr>" "''k1''" two_jobs] by simp

section \<open>Clear, then add\<close>




section \<open>The skill union\<close>



section \<open>The order of the extraction steps\<close>

lemma safeJsonParse_fails:
  "parse raw = None \<Longrightarrow> parse (cleaned raw) = None \<Longrightarrow> safeJsonParse parse raw = Null"
  by (simp add: safeJsonParse_def)

lemma tagged_block_None: "tagged_block parse text = None \<longleftrightarrow> match_pair text = None"
  by (simp add: tagged_block_def Let_def split: option.split)

lemma opening_tag_only_None: "opening_tag_only parse text = None \<longleftrightarrow> search_open_tag text = None"
  by (simp add: opening_tag_only_def Let_def split: option.split)

lemma fenced_block_None: "fenced_block parse text = None \<longleftrightarrow> match_fence text = None"
  by (simp add: fenced_block_def Let_def split: option.split)

lemma no_tag_no_pair: "search_open_tag text = None \<Longrightarrow> match_pair text = None"
  by (simp add: match_pair_def)

text \<open>
  C4, as the specification states it, fails. The text has a fenced block that is not
  JSON and, behind it, a bare object that is. Step 3 finds its candidate, cannot parse
  it, and returns the failure \<open>Fenced JSON not parseable\<close>; step 4, which would have
  returned the object, is not reached.
\<close>

theorem unparseable_fence_is_final:
  \<open>extractJsonBlock sample_parse ''```later``` {"a":1}'' =
     \<lparr>data = Null, error = Some ''Fenced JSON not parseable''\<rparr> \<and>
   object_fallback sample_parse ''```later``` {"a":1}'' =
     Some \<lparr>data = Obj [(''a'', Num 1)], error = Some ''Used untagged JSON fallback''\<rparr>\<close>
  by code_simp

text \<open>
  C4, amended. For every raw text, when the candidate found by the tagged-pair step, by
  the opening-tag step or by the fenced-block step fails \<open>JSON.parse\<close> before and after
  the recovery, the Extractor returns at once, with no data and that step's own error;
  the later steps are not tried. Only the last step, the bare object, gives way to the
  failure \<open>No JSON found\<close> when its candidate cannot be parsed.
\<close>

theorem unparseable_candidate_is_final:
  "(match_pair text = Some inner \<and>
    parse (trim inner) = None \<and> parse (cleaned (trim inner)) = None
      \<longrightarrow> extractJsonBlock parse text =
            \<lparr>data = Null, error = Some ''Tagged JSON not parseable''\<rparr>) \<and>
   (match_pair text = None \<and> search_open_tag text = Some i \<and>
    extractFirstBalancedObject (drop (i + length open_tag) text) = Some c \<and>
    parse c = None \<and> parse (cleaned c) = None
      \<longrightarrow> extractJsonBlock parse text =
            \<lparr>data = Null, error = Some ''Opening tag without JSON''\<rparr>) \<and>
   (search_open_tag text = None \<and> match_fence text = Some inner \<and>
    parse (trim inner) = None \<and> parse (cleaned (trim inner)) = None
      \<longrightarrow> extractJsonBlock parse text =
            \<lparr>data = Null, error = Some ''Fenced JSON not parseable''\<rparr>) \<and>
   (search_open_tag text = None \<and> match_fence text = None \<and> match_braces text = Some c \<and>
    parse c = None \<and> parse (cleaned c) = None
      \<longrightarrow> extractJsonBlock parse text = \<lparr>data = Null, error = Some ''No JSON found''\<rparr>)"
proof (intro conjI impI)
  assume "match_pair text = Some inner \<and>
    parse (trim inner) = None \<and> parse (cleaned (trim inner)) = None"
  then show "extractJsonBlock parse text =
      \<lparr>data = Null, error = Some ''Tagged JSON not parseable''\<rparr>"
    by (simp add: extractJsonBlock_def tagged_block_def safeJsonParse_fails)
next
  assume "match_pair text = None \<and> search_open_tag text = Some i \<and>
    extractFirstBalancedObject (drop (i + length open_tag) text) = Some c \<and>
    parse c = None \<and> parse (cleaned c) = None"
  then show "extractJsonBlock parse text =
      \<lparr>data = Null, error = Some ''Opening tag without JSON''\<rparr>"
    by (simp add: extractJsonBlock_def tagged_block_def opening_tag_only_def safeJsonParse_fails)
next
  assume a: "search_open_tag text = None \<and> match_fence text = Some inner \<and>
    parse (trim inner) = None \<and> parse (cleaned (trim inner)) = None"
  then have "tagged_block parse text = None" "opening_tag_only parse text = None"
    by (simp_all add: tagged_block_None opening_tag_only_None no_tag_no_pair)
  with a show "extractJsonBlock parse text =
      \<lparr>data = Null, error = Some ''Fenced JSON not parseable''\<rparr>"
    by (simp add: extractJsonBlock_def fenced_block_def safeJsonParse_fails)
next
  assume a: "search_open_tag text = None \<and> match_fence text = None \<and>
    match_braces text = Some c \<and> parse c = None \<and> parse (cleaned c) = None"
  then have "tagged_block parse text = None" "opening_tag_only parse text = None"
      "fenced_block parse text = None"
    by (simp_all add: tagged_block_None opening_tag_only_None fenced_block_None no_tag_no_pair)
  with a show "extractJsonBlock parse text = \<lparr>data = Null, error = Some ''No JSON found''\<rparr>"
    by (simp add: extractJsonBlock_def object_fallback_def safeJsonParse_fails)
qed

theorem unparseable_candidate_is_final_witness:
  \<open>extractJsonBlock sample_parse ''[RESUME_DATA]later[/RESUME_DATA] {"a":1}'' =
     \<lparr>data = Null, error = Some ''Tagged JSON not parseable''\<rparr> \<and>
   extractJsonBlock sample_parse ''[resume_data] {later} {"a":1}'' =
     \<lparr>data = Null, error = Some ''Opening tag without JSON''\<rparr> \<and>
   extractJsonBlock sample_parse ''``` {later} ``` and {"a":1}'' =
     \<lparr>data = Null, error = Some ''Fenced JSON not parseable''\<rparr> \<and>
   extractJsonBlock sample_parse ''see {later}'' =
     \<lparr>data = Null, error = Some ''No JSON found''\<rparr>\<close>
proof -
  have h1: \<open>match_pair ''[RESUME_DATA]later[/RESUME_DATA] {"a":1}'' = Some ''later'' \<and>
      sample_parse (trim ''later'') = None \<and> sample_parse (cleaned (trim ''later'')) = None\<close>
    by code_simp
  have h2: \<open>match_pair ''[resume_data] {later} {"a":1}'' = None \<and>
      search_open_tag ''[resume_data] {later} {"a":1}'' = Some 0 \<and>
      extractFirstBalancedObject (drop (0 + length open_tag) ''[resume_data] {later} {"a":1}'')
        = Some ''{later}'' \<and>
      sample_parse ''{later}'' = None \<and> sample_parse (cleaned ''{later}'') = None\<close>
    by code_simp
  have h3: \<open>search_open_tag ''``` {later} ``` and {"a":1}'' = None \<and>
      match_fence ''``` {later} ``` and {"a":1}'' = Some ''{later} '' \<and>
      sample_parse (trim ''{later} '') = None \<and>
      sample_parse (cleaned (trim ''{later} '')) = None\<close>
    by code_simp
  have h4: \<open>search_open_tag ''see {later}'' = None \<and> match_fence ''see {later}'' = None \<and>
      match_braces ''see {later}'' = Some ''{later}'' \<and>
      sample_parse ''{later}'' = None \<and> sample_parse (cleaned ''{later}'') = None\<close>
    by code_simp
  show ?thesis
    by (intro conjI)
      (rule unparseable_candidate_is_final [THEN conjunct1, rule_format, OF h1],
       rule unparseable_candidate_is_final
         [THEN conjunct2, THEN conjunct1, rule_format, OF h2],
       rule unparseable_candidate_is_final
         [THEN conjunct2, THEN conjunct2, THEN conjunct1, rule_format, OF h3],
       rule unparseable_candidate_is_final
         [THEN conjunct2, THEN conjunct2, THEN conjunct2, rule_format, OF h4])
qed

text \<open>
  C8, as the specification states it, fails: it is not the first success that wins. The
  text has a tagged block that is not JSON and a fenced block that is. The fenced-block
  step, taken alone, succeeds; the Extractor returns the failure of the tagged block.
\<close>

theorem first_success_does_not_win:
  \<open>extractJsonBlock sample_parse ''[RESUME_DATA]later[/RESUME_DATA] ```{"a":1}```'' =
     \<lparr>data = Null, error = Some ''Tagged JSON not parseable''\<rparr> \<and>
   fenced_block sample_parse ''[RESUME_DATA]later[/RESUME_DATA] ```{"a":1}```'' =
     Some \<lparr>data = Obj [(''a'', Num 1)], error = None\<rparr>\<close>
  by code_simp

text \<open>
  C8, amended. For every raw text, the Extractor goes through the steps in the fixed
  order tagged pair, opening tag without closing tag, fenced block, bare object, and the
  first step whose pattern is found in the text decides the result, be it that step's
  object or that step's failure: a step is passed over exactly when its pattern is not
  found (and the bare object also when it does not parse). In particular a text with a
  tagged block and a separate fenced block is resolved from the tagged block.
\<close>

theorem first_pattern_found_decides:
  "(tagged_block parse text = None \<longleftrightarrow> match_pair text = None) \<and>
   (opening_tag_only parse text = None \<longleftrightarrow> search_open_tag text = None) \<and>
   (fenced_block parse text = None \<longleftrightarrow> match_fence text = None) \<and>
   (tagged_block parse text = Some r \<longrightarrow> extractJsonBlock parse text = r) \<and>
   (match_pair text = None \<and> opening_tag_only parse text = Some r
      \<longrightarrow> extractJsonBlock parse text = r) \<and>
   (search_open_tag text = None \<and> fenced_block parse text = Some r
      \<longrightarrow> extractJsonBlock parse text = r) \<and>
   (search_open_tag text = None \<and> match_fence text = None \<and>
    object_fallback parse text = Some r
      \<longrightarrow> extractJsonBlock parse text = r) \<and>
   (search_open_tag text = None \<and> match_fence text = None \<and>
    object_fallback parse text = None
      \<longrightarrow> extractJsonBlock parse text = \<lparr>data = Null, error = Some ''No JSON found''\<rparr>) \<and>
   (match_pair text = Some inner
      \<longrightarrow> data (extractJsonBlock parse text) = safeJsonParse parse (trim inner))"
proof -
  have none: "tagged_block parse text = None" "opening_tag_only parse text = None"
    if "search_open_tag text = None"
    using that by (simp_all add: tagged_block_None opening_tag_only_None no_tag_no_pair)
  have s1: "extractJsonBlock parse text = r" if "tagged_block parse text = Some r"
    using that by (simp add: extractJsonBlock_def)
  have s2: "extractJsonBlock parse text = r"
    if "match_pair text = None \<and> opening_tag_only parse text = Some r"
    using that by (simp add: extractJsonBlock_def tagged_block_None [THEN iffD2])
  have s3: "extractJsonBlock parse text = r"
    if "search_open_tag text = None \<and> fenced_block parse text = Some r"
    using that none by (simp add: extractJsonBlock_def)
  have s4: "extractJsonBlock parse text = r"
    if "search_open_tag text = None \<and> match_fence text = None \<and>
        object_fallback parse text = Some r"
    using that none by (simp add: extractJsonBlock_def fenced_block_None [THEN iffD2])
  have s5: "extractJsonBlock parse text = \<lparr>data = Null, error = Some ''No JSON found''\<rparr>"
    if "search_open_tag text = None \<and> match_fence text = None \<and>
        object_fallback parse text = None"
    using that none by (simp add: extractJsonBlock_def fenced_block_None [THEN iffD2])
  have s6: "data (extractJsonBlock parse text) = safeJsonParse parse (trim inner)"
    if "match_pair text = Some inner"
    using that by (simp add: extractJsonBlock_def tagged_block_def Let_def)
  show ?thesis
    using s1 s2 s3 s4 s5 s6 tagged_block_None [of parse "text"]
      opening_tag_only_None [of parse "text"] fenced_block_None [of parse "text"]
    by blast
qed

theorem first_pattern_found_decides_witness:
  \<open>extractJsonBlock sample_parse
       ''Sure! [RESUME_DATA]{"summary": "Backend engineer"}[/RESUME_DATA] ```{"a":1}```'' =
     \<lparr>data = Obj [(''summary'', Str ''Backend engineer'')], error = None\<rparr> \<and>
   extractJsonBlock sample_parse ''[RESUME_DATA]{"skills": ["Go","Rust"]} here is more text'' =
     \<lparr>data = Obj [(''skills'', Arr [Str ''Go'', Str ''Rust''])],
      error = Some ''Missing closing tag, recovered JSON''\<rparr> \<and>
   extractJsonBlock sample_parse ''I have a question, can you clarify the role?'' =
     \<lparr>data = Null, error = Some ''No JSON found''\<rparr>\<close>
proof -
  have h1: \<open>tagged_block sample_parse
       ''Sure! [RESUME_DATA]{"summary": "Backend engineer"}[/RESUME_DATA] ```{"a":1}```'' =
     Some \<lparr>data = Obj [(''summary'', Str ''Backend engineer'')], error = None\<rparr>\<close>
    by code_simp
  have h2: \<open>match_pair ''[RESUME_DATA]{"skills": ["Go","Rust"]} here is more text'' = None \<and>
     opening_tag_only sample_parse ''[RESUME_DATA]{"skills": ["Go","Rust"]} here is more text'' =
     Some \<lparr>data = Obj [(''skills'', Arr [Str ''Go'', Str ''Rust''])],
      error = Some ''Missing closing tag, recovered JSON''\<rparr>\<close>
    by code_simp
  have h3: \<open>search_open_tag ''I have a question, can you clarify the role?'' = None \<and>
     match_fence ''I have a question, can you clarify the role?'' = None \<and>
     object_fallback sample_parse ''I have a question, can you clarify the role?'' = None\<close>
    by code_simp
  show ?thesis
    by (intro conjI)
      (rule first_pattern_found_decides
         [THEN conjunct2, THEN conjunct2, THEN conjunct2, THEN conjunct1, rule_format, OF h1],
       rule first_pattern_found_decides
         [THEN conjunct2, THEN conjunct2, THEN conjunct2, THEN conjunct2, THEN conjunct1,
          rule_format, OF h2],
       rule first_pattern_found_decides
         [THEN conjunct2, THEN conjunct2, THEN conjunct2, THEN conjunct2, THEN conjunct2,
          THEN conjunct2, THEN conjunct2, THEN conjunct1, rule_format, OF h3])
qed

text \<open>
  \<open>parseResumeData\<close> selects in another order: on a text with a tagged block and a
  fenced block it takes the fenced one.
\<close>

lemma parseResumeData_takes_the_fence:
  \<open>parseResumeData_candidate ''[RESUME_DATA]{"a":1}[/RESUME_DATA] ```{"b":2}```'' =
     Some ''{"b":2}''\<close>
  by code_simp

section \<open>The contact of the normalized patch\<close>







end
